theory Spec2Isabelle
  imports Complex_Main "HOL-Library.Word"
begin

unbundle bit_operations_syntax

section \<open>The reactor simulation of \<^verbatim>\<open>reactor/simulation.go\<close>\<close>

text \<open>
  The embedding follows \<^verbatim>\<open>simulation.go\<close> function by function.
  \<^item> A Go \<^verbatim>\<open>float64\<close> is modelled by a \<^typ>\<open>real\<close>: finite values, exact
    arithmetic. NaN, infinities and rounding error are outside the model, and every
    theorem below is a theorem about the exact-arithmetic reading of the code.
    Division by zero (0 in HOL, an infinity or NaN in Go) never happens under the
    constants installed by \<^verbatim>\<open>NewReactor\<close>, which the theorems assume where a
    divisor matters.
  \<^item> \<^verbatim>\<open>ReactorStatus\<close> is a \<^verbatim>\<open>uint32\<close>: a \<^typ>\<open>32 word\<close>.
  \<^item> \<^verbatim>\<open>ReactorState.FuelRod\<close> is a pointer \<^verbatim>\<open>*FuelRod\<close>. Pointers are
    addresses into an explicit heap of fuel rods; \<^verbatim>\<open>nil\<close> is \<open>None\<close>;
    \<^verbatim>\<open>&FuelRod{...}\<close> allocates the next free cell.
  \<^item> The mutex is not modelled: every method body is one atomic state transformer.
  \<^item> \<^verbatim>\<open>rand.Float64()\<close> is modelled by explicit draws handed to the function
    that consumes them, each a real in \<open>[0, 1)\<close>.
\<close>

subsection \<open>Data\<close>

type_synonym ReactorStatus = "32 word"

definition StatusNone :: ReactorStatus where "StatusNone = 0"
definition StatusTempLow :: ReactorStatus where "StatusTempLow = push_bit 0 1"
definition StatusOverheat :: ReactorStatus where "StatusOverheat = push_bit 1 1"
definition StatusOutputLow :: ReactorStatus where "StatusOutputLow = push_bit 2 1"
definition StatusOutputHigh :: ReactorStatus where "StatusOutputHigh = push_bit 3 1"
definition StatusFuelLow :: ReactorStatus where "StatusFuelLow = push_bit 4 1"
definition StatusFuelOut :: ReactorStatus where "StatusFuelOut = push_bit 5 1"
definition StatusMeltdown :: ReactorStatus where "StatusMeltdown = push_bit 6 1"
definition StatusScram :: ReactorStatus where "StatusScram = push_bit 7 1"

record FuelRod =
  Condition :: real

type_synonym addr = nat

text \<open>
  The heap of fuel rods: cell \<open>a\<close> of the list is the rod at address \<open>a\<close>, and
  allocation appends a cell. Go has no dangling pointers, so the addresses the program
  holds are below the length of the heap (\<open>rod_allocated\<close> below); a read or write at
  such an address is the read or write through the pointer.
\<close>

type_synonym heap = "FuelRod list"

definition alloc :: "heap \<Rightarrow> FuelRod \<Rightarrow> heap \<times> addr" where
  "alloc h rod = (h @ [rod], length h)"

record ReactorState =
  IsPoweredOn :: bool
  IsAutoControl :: bool
  Temperature :: real
  FissionRate :: real
  TurbineOutput :: real
  PowerOutput :: real
  PowerLoad :: real
  FuelRod :: "addr option"
  Status :: ReactorStatus

record Reactor =
  state :: ReactorState
  MAX_TEMP :: real
  MAX_POWER_OUTPUT :: real
  MELTDOWN_TEMP :: real
  OVERHEAT_TEMP :: real
  LOW_TEMP :: real
  OPTIMAL_TEMP :: real
  FUEL_CONSUMPTION_RATE :: real
  HEAT_GENERATION_RATE :: real
  AMBIENT_TEMP_DISSIPATION :: real
  TURBINE_POWER_FACTOR :: real
  LOW_FUEL_THRESHOLD :: real
  baseLoad :: real
  spikeTimer :: real
  isSpiking :: bool
  spikeElapsed :: real
  spikeDuration :: real
  spikeMagnitude :: real

subsection \<open>Internal helpers\<close>

definition min_go :: "real \<Rightarrow> real \<Rightarrow> real" where
  "min_go a b = (if a < b then a else b)"

definition max_go :: "real \<Rightarrow> real \<Rightarrow> real" where
  "max_go a b = (if a > b then a else b)"

definition clamp :: "real \<Rightarrow> real \<Rightarrow> real \<Rightarrow> real" where
  "clamp v lo hi = (if v < lo then lo else if v > hi then hi else v)"

text \<open>
  \<^verbatim>\<open>math.Round\<close> of the Go standard library: the nearest integer, halves rounded
  away from zero.
\<close>

definition math_Round :: "real \<Rightarrow> real" where
  "math_Round x = (if x < 0 then - of_int \<lfloor>- x + 1 / 2\<rfloor> else of_int \<lfloor>x + 1 / 2\<rfloor>)"

subsection \<open>Construction\<close>

text \<open>
  \<^verbatim>\<open>NewReactor\<close> first builds the struct with the constants, every other field at
  its zero value, then sets the grid-load fields, and last the state, computed from the
  constants so that heat and power balance at the optimal temperature.
\<close>

definition NewReactor :: "heap \<Rightarrow> heap \<times> Reactor" where
  "NewReactor h =
    (let r = \<lparr>state = \<lparr>IsPoweredOn = False, IsAutoControl = False, Temperature = 0,
                        FissionRate = 0, TurbineOutput = 0, PowerOutput = 0, PowerLoad = 0,
                        FuelRod = None, Status = 0\<rparr>,
              MAX_TEMP = 1000, MAX_POWER_OUTPUT = 5000, MELTDOWN_TEMP = 900,
              OVERHEAT_TEMP = 600, LOW_TEMP = 200, OPTIMAL_TEMP = 350,
              FUEL_CONSUMPTION_RATE = 0.05, HEAT_GENERATION_RATE = 800,
              AMBIENT_TEMP_DISSIPATION = 0.05, TURBINE_POWER_FACTOR = 8,
              LOW_FUEL_THRESHOLD = 20,
              baseLoad = 0, spikeTimer = 0, isSpiking = False, spikeElapsed = 0,
              spikeDuration = 0, spikeMagnitude = 0\<rparr>;
         initialLoad = 1000;
         r = r\<lparr>baseLoad := initialLoad\<rparr>;
         r = r\<lparr>spikeTimer := 10\<rparr>;
         r = r\<lparr>spikeDuration := 10\<rparr>;
         r = r\<lparr>spikeMagnitude := 1000\<rparr>;
         initialTemp = OPTIMAL_TEMP r;
         initialTurbine =
           initialLoad
             / (initialTemp / 100 * (initialTemp / OVERHEAT_TEMP r) * TURBINE_POWER_FACTOR r);
         heatConsumed =
           (initialLoad / TURBINE_POWER_FACTOR r) + (initialTemp * AMBIENT_TEMP_DISSIPATION r);
         initialFission = (heatConsumed * 100) / HEAT_GENERATION_RATE r;
         (h, rod) = alloc h \<lparr>Condition = 100\<rparr>
     in (h,
         r\<lparr>state := \<lparr>IsPoweredOn = True, IsAutoControl = True, Temperature = initialTemp,
                       FissionRate = initialFission, TurbineOutput = initialTurbine,
                       PowerOutput = initialLoad, PowerLoad = initialLoad,
                       FuelRod = Some rod, Status = StatusNone\<rparr>\<rparr>))"

subsection \<open>The tick\<close>

definition runAutoControlLocked :: "Reactor \<Rightarrow> Reactor" where
  "runAutoControlLocked r =
    (let powerError = PowerLoad (state r) - PowerOutput (state r);
         r = r\<lparr>state := (state r)\<lparr>TurbineOutput := TurbineOutput (state r) + powerError * 0.01\<rparr>\<rparr>;
         tempError = OPTIMAL_TEMP r - Temperature (state r);
         r = r\<lparr>state := (state r)\<lparr>FissionRate := FissionRate (state r) + tempError * 0.002\<rparr>\<rparr>;
         r = r\<lparr>state := (state r)\<lparr>FissionRate := clamp (FissionRate (state r)) 0 100\<rparr>\<rparr>
     in r\<lparr>state := (state r)\<lparr>TurbineOutput := clamp (TurbineOutput (state r)) 0 100\<rparr>\<rparr>)"

text \<open>
  \<^verbatim>\<open>updateStatusLocked\<close> reads the rod through the pointer and may set the pointer
  to \<^verbatim>\<open>nil\<close>; it never writes to the heap.
\<close>

definition updateStatusLocked :: "heap \<Rightarrow> Reactor \<Rightarrow> Reactor" where
  "updateStatusLocked h r =
    (let current = Status (state r) AND StatusScram;
         current =
           (if Temperature (state r) \<ge> MELTDOWN_TEMP r then current OR StatusMeltdown
            else if Temperature (state r) \<ge> OVERHEAT_TEMP r then current OR StatusOverheat
            else if Temperature (state r) < LOW_TEMP r \<and> IsPoweredOn (state r)
                    \<and> PowerOutput (state r) > 0 then current OR StatusTempLow
            else current);
         powerDifference = PowerOutput (state r) - PowerLoad (state r);
         current =
           (if powerDifference > PowerLoad (state r) * 0.2 \<and> PowerLoad (state r) > 100
            then current OR StatusOutputHigh else current);
         current =
           (if powerDifference < - PowerLoad (state r) * 0.2 \<and> PowerLoad (state r) > 100
            then current OR StatusOutputLow else current);
         (current, r) =
           (case FuelRod (state r) of
              None \<Rightarrow> (current OR StatusFuelOut, r\<lparr>state := (state r)\<lparr>FuelRod := None\<rparr>\<rparr>)
            | Some a \<Rightarrow>
                if Condition (h ! a) \<le> 0
                then (current OR StatusFuelOut, r\<lparr>state := (state r)\<lparr>FuelRod := None\<rparr>\<rparr>)
                else if Condition (h ! a) < LOW_FUEL_THRESHOLD r
                then (current OR StatusFuelLow, r)
                else (current, r))
     in r\<lparr>state := (state r)\<lparr>Status := current\<rparr>\<rparr>)"

text \<open>
  \<^verbatim>\<open>updateGridLoad\<close> draws \<open>u1\<close> for the random walk, and \<open>u2\<close> only on the tick
  that starts a spike.
\<close>

definition updateGridLoad :: "real \<Rightarrow> real \<Rightarrow> real \<Rightarrow> Reactor \<Rightarrow> Reactor" where
  "updateGridLoad delta u1 u2 r =
    (let change = (u1 * 24) - 12;
         r = r\<lparr>baseLoad := baseLoad r + change\<rparr>;
         r = r\<lparr>baseLoad := clamp (baseLoad r) 800 2100\<rparr>;
         (spikeVal, r) =
           (if \<not> isSpiking r then
              (let r = r\<lparr>spikeTimer := spikeTimer r - delta\<rparr>
               in if spikeTimer r \<le> 0
                  then (0, r\<lparr>isSpiking := True, spikeElapsed := 0, spikeTimer := 10 + u2 * 5\<rparr>)
                  else (0, r))
            else
              (let r = r\<lparr>spikeElapsed := spikeElapsed r + delta\<rparr>
               in if spikeElapsed r \<ge> spikeDuration r
                  then (0, r\<lparr>isSpiking := False\<rparr>)
                  else (let decayFactor = 1 - (spikeElapsed r / spikeDuration r)
                        in (spikeMagnitude r * decayFactor, r))))
     in r\<lparr>state := (state r)\<lparr>PowerLoad := math_Round (baseLoad r + spikeVal)\<rparr>\<rparr>)"

text \<open>
  \<^verbatim>\<open>Update\<close> is embedded block by block. \<open>shutdownCooling\<close> is the body of the
  branch taken when the reactor is off or scrammed, up to its call of
  \<^verbatim>\<open>updateStatusLocked\<close>; \<open>burnFuel\<close> is the heat-generation block, the one place
  that writes through the fuel-rod pointer; \<open>runTurbine\<close> is the turbine and cooling
  block of a running reactor.
\<close>

definition shutdownCooling :: "real \<Rightarrow> Reactor \<Rightarrow> Reactor" where
  "shutdownCooling delta r =
    (let r = r\<lparr>state := (state r)\<lparr>FissionRate := 0\<rparr>\<rparr>;
         tempEfficiency = min_go 1 (Temperature (state r) / OVERHEAT_TEMP r);
         potentialPower =
           Temperature (state r) * (TurbineOutput (state r) / 100) * tempEfficiency;
         r = r\<lparr>state := (state r)\<lparr>PowerOutput :=
               min_go (MAX_POWER_OUTPUT r) (potentialPower * TURBINE_POWER_FACTOR r)\<rparr>\<rparr>;
         heatConsumedByTurbine = PowerOutput (state r) / TURBINE_POWER_FACTOR r;
         ambientCooling = Temperature (state r) * (AMBIENT_TEMP_DISSIPATION r * 2);
         r = r\<lparr>state := (state r)\<lparr>Temperature :=
               Temperature (state r) - (heatConsumedByTurbine + ambientCooling) * delta\<rparr>\<rparr>
     in if Temperature (state r) < 0
        then r\<lparr>state := (state r)\<lparr>Temperature := 0, PowerOutput := 0\<rparr>\<rparr>
        else r)"

fun burnFuel :: "real \<Rightarrow> heap \<times> Reactor \<Rightarrow> heap \<times> Reactor" where
  "burnFuel delta (h, r) =
    (case FuelRod (state r) of
       None \<Rightarrow> (h, r)
     | Some a \<Rightarrow>
         if Condition (h ! a) > 0 then
           (let heatGenerated = (FissionRate (state r) / 100) * HEAT_GENERATION_RATE r;
                r = r\<lparr>state := (state r)\<lparr>Temperature :=
                      Temperature (state r) + heatGenerated * delta\<rparr>\<rparr>;
                fuelConsumed = (FissionRate (state r) / 100) * FUEL_CONSUMPTION_RATE r * delta
            in (h[a := (h ! a)\<lparr>Condition := max_go 0 (Condition (h ! a) - fuelConsumed)\<rparr>], r))
         else (h, r))"

definition runTurbine :: "real \<Rightarrow> Reactor \<Rightarrow> Reactor" where
  "runTurbine delta r =
    (let tempEfficiency = min_go 1 (Temperature (state r) / OVERHEAT_TEMP r);
         potentialPower =
           Temperature (state r) * (TurbineOutput (state r) / 100) * tempEfficiency;
         r = r\<lparr>state := (state r)\<lparr>PowerOutput :=
               min_go (MAX_POWER_OUTPUT r) (potentialPower * TURBINE_POWER_FACTOR r)\<rparr>\<rparr>;
         heatConsumedByTurbine = PowerOutput (state r) / TURBINE_POWER_FACTOR r;
         ambientCooling = Temperature (state r) * AMBIENT_TEMP_DISSIPATION r;
         r = r\<lparr>state := (state r)\<lparr>Temperature :=
               Temperature (state r) - (heatConsumedByTurbine + ambientCooling) * delta\<rparr>\<rparr>
     in if Temperature (state r) < 0
        then r\<lparr>state := (state r)\<lparr>Temperature := 0\<rparr>\<rparr>
        else r)"

fun Update :: "real \<Rightarrow> real \<Rightarrow> real \<Rightarrow> heap \<times> Reactor \<Rightarrow> heap \<times> Reactor" where
  "Update delta u1 u2 (h, r) =
    (let r = updateGridLoad delta u1 u2 r
     in if \<not> IsPoweredOn (state r) \<or> (Status (state r) AND StatusScram) \<noteq> 0 then
          (let r = shutdownCooling delta r
           in (h, updateStatusLocked h r))
        else
          (let r = (if IsAutoControl (state r) then runAutoControlLocked r else r);
               (h, r) = burnFuel delta (h, r);
               r = runTurbine delta r
           in (h, updateStatusLocked h r)))"

subsection \<open>Control helpers\<close>

definition PowerOn :: "Reactor \<Rightarrow> Reactor" where
  "PowerOn r =
    (if \<not> IsPoweredOn (state r)
     then (let r = r\<lparr>state := (state r)\<lparr>IsPoweredOn := True\<rparr>\<rparr>
           in r\<lparr>state := (state r)\<lparr>Status := Status (state r) AND NOT StatusScram\<rparr>\<rparr>)
     else r)"

definition PowerOff :: "Reactor \<Rightarrow> Reactor" where
  "PowerOff r = r\<lparr>state := (state r)\<lparr>IsPoweredOn := False\<rparr>\<rparr>"

definition Scram :: "Reactor \<Rightarrow> Reactor" where
  "Scram r =
    (let r = r\<lparr>state := (state r)\<lparr>Status := Status (state r) OR StatusScram\<rparr>\<rparr>
     in r\<lparr>state := (state r)\<lparr>IsPoweredOn := False\<rparr>\<rparr>)"

definition ToggleAuto :: "Reactor \<Rightarrow> Reactor" where
  "ToggleAuto r = r\<lparr>state := (state r)\<lparr>IsAutoControl := \<not> IsAutoControl (state r)\<rparr>\<rparr>"

definition SetFissionRate :: "real \<Rightarrow> Reactor \<Rightarrow> Reactor" where
  "SetFissionRate v r =
    (if \<not> IsAutoControl (state r)
     then r\<lparr>state := (state r)\<lparr>FissionRate := clamp v 0 100\<rparr>\<rparr>
     else r)"

definition SetTurbineOutput :: "real \<Rightarrow> Reactor \<Rightarrow> Reactor" where
  "SetTurbineOutput v r =
    (if \<not> IsAutoControl (state r)
     then r\<lparr>state := (state r)\<lparr>TurbineOutput := clamp v 0 100\<rparr>\<rparr>
     else r)"

definition SetPowerLoad :: "real \<Rightarrow> Reactor \<Rightarrow> Reactor" where
  "SetPowerLoad v r = r\<lparr>state := (state r)\<lparr>PowerLoad := max_go 0 v\<rparr>\<rparr>"

text \<open>
  \<^verbatim>\<open>Snapshot\<close> returns the struct by value: the scalar fields are copied, the
  \<^verbatim>\<open>FuelRod\<close> field is the same address as in the reactor.
\<close>

definition Snapshot :: "Reactor \<Rightarrow> ReactorState" where
  "Snapshot r = state r"

fun Refuel :: "heap \<times> Reactor \<Rightarrow> heap \<times> Reactor" where
  "Refuel (h, r) =
    (let (h, rod) = alloc h \<lparr>Condition = 100\<rparr>
     in (h, r\<lparr>state := (state r)\<lparr>FuelRod := Some rod\<rparr>\<rparr>))"

subsection \<open>Vocabulary of the properties\<close>

text \<open>The source tests a flag with \<^verbatim>\<open>(status & flag) != 0\<close>.\<close>

definition hasFlag :: "ReactorStatus \<Rightarrow> ReactorStatus \<Rightarrow> bool" where
  "hasFlag s f = (s AND f \<noteq> 0)"

text \<open>The simulation constants as \<^verbatim>\<open>NewReactor\<close> installs them; no method writes them.\<close>

definition has_constants :: "Reactor \<Rightarrow> bool" where
  "has_constants r =
    (MAX_TEMP r = 1000 \<and> MAX_POWER_OUTPUT r = 5000 \<and> MELTDOWN_TEMP r = 900
     \<and> OVERHEAT_TEMP r = 600 \<and> LOW_TEMP r = 200 \<and> OPTIMAL_TEMP r = 350
     \<and> FUEL_CONSUMPTION_RATE r = 0.05 \<and> HEAT_GENERATION_RATE r = 800
     \<and> AMBIENT_TEMP_DISSIPATION r = 0.05 \<and> TURBINE_POWER_FACTOR r = 8
     \<and> LOW_FUEL_THRESHOLD r = 20 \<and> spikeDuration r = 10 \<and> spikeMagnitude r = 1000)"

text \<open>What a reader sees of the fuel rod through a state value: the pointer, followed.\<close>

definition fuelCondition :: "heap \<Rightarrow> ReactorState \<Rightarrow> real option" where
  "fuelCondition h s = (case FuelRod s of None \<Rightarrow> None | Some a \<Rightarrow> Some (Condition (h ! a)))"

text \<open>A non-nil fuel-rod pointer points into the heap (Go has no dangling pointers).\<close>

definition rod_allocated :: "heap \<Rightarrow> ReactorState \<Rightarrow> bool" where
  "rod_allocated h s = (case FuelRod s of None \<Rightarrow> True | Some a \<Rightarrow> a < length h)"

text \<open>The domains of the physical fields of the data model.\<close>

definition valid_state :: "heap \<Rightarrow> Reactor \<Rightarrow> bool" where
  "valid_state h r =
    (0 \<le> FissionRate (state r) \<and> FissionRate (state r) \<le> 100
     \<and> 0 \<le> TurbineOutput (state r) \<and> TurbineOutput (state r) \<le> 100
     \<and> 0 \<le> Temperature (state r)
     \<and> 0 \<le> PowerOutput (state r) \<and> PowerOutput (state r) \<le> MAX_POWER_OUTPUT r
     \<and> 0 \<le> PowerLoad (state r)
     \<and> (case fuelCondition h (state r) of None \<Rightarrow> True | Some c \<Rightarrow> 0 \<le> c \<and> c \<le> 100))"

text \<open>The four ranges a tick has to keep.\<close>

definition ranges_ok :: "Reactor \<Rightarrow> bool" where
  "ranges_ok r =
    (0 \<le> FissionRate (state r) \<and> FissionRate (state r) \<le> 100
     \<and> 0 \<le> TurbineOutput (state r) \<and> TurbineOutput (state r) \<le> 100
     \<and> 0 \<le> Temperature (state r)
     \<and> 0 \<le> PowerOutput (state r) \<and> PowerOutput (state r) \<le> MAX_POWER_OUTPUT r)"

text \<open>A set Scram flag means the reactor is powered off.\<close>

definition scram_inv :: "Reactor \<Rightarrow> bool" where
  "scram_inv r = (hasFlag (Status (state r)) StatusScram \<longrightarrow> \<not> IsPoweredOn (state r))"

text \<open>
  The operations a client or the tick driver can invoke, and their dispatch to the
  methods above. \<open>OpAdvance delta u1 u2\<close> is one call of \<^verbatim>\<open>Update(delta)\<close> with the
  draws \<open>u1\<close>, \<open>u2\<close>.
\<close>

datatype operation =
    OpPowerOn | OpPowerOff | OpScram | OpToggleAuto
  | OpSetFissionRate real | OpSetTurbineOutput real | OpSetPowerLoad real
  | OpRefuel | OpAdvance real real real

fun perform :: "operation \<Rightarrow> heap \<times> Reactor \<Rightarrow> heap \<times> Reactor" where
  "perform OpPowerOn (h, r) = (h, PowerOn r)"
| "perform OpPowerOff (h, r) = (h, PowerOff r)"
| "perform OpScram (h, r) = (h, Scram r)"
| "perform OpToggleAuto (h, r) = (h, ToggleAuto r)"
| "perform (OpSetFissionRate v) (h, r) = (h, SetFissionRate v r)"
| "perform (OpSetTurbineOutput v) (h, r) = (h, SetTurbineOutput v r)"
| "perform (OpSetPowerLoad v) (h, r) = (h, SetPowerLoad v r)"
| "perform OpRefuel (h, r) = Refuel (h, r)"
| "perform (OpAdvance delta u1 u2) (h, r) = Update delta u1 u2 (h, r)"

fun performAll :: "operation list \<Rightarrow> heap \<times> Reactor \<Rightarrow> heap \<times> Reactor" where
  "performAll [] hr = hr"
| "performAll (c # cs) hr = performAll cs (perform c hr)"

text \<open>Repeated ticks of the same length, one pair of draws per tick.\<close>

fun ticks :: "real \<Rightarrow> (real \<times> real) list \<Rightarrow> heap \<times> Reactor \<Rightarrow> heap \<times> Reactor" where
  "ticks delta [] hr = hr"
| "ticks delta ((u1, u2) # ds) hr = ticks delta ds (Update delta u1 u2 hr)"

text \<open>The reactor of a fresh process: \<^verbatim>\<open>NewReactor()\<close> on an empty heap.\<close>

definition heap0 :: heap where
  "heap0 = fst (NewReactor [])"

definition reactor0 :: Reactor where
  "reactor0 = snd (NewReactor [])"

section \<open>Properties\<close>

declare Update.simps [simp del] burnFuel.simps [simp del] Refuel.simps [simp del]

subsection \<open>Status flags as bits\<close>

lemma hasFlag_bit:
  "hasFlag s StatusTempLow = bit s 0"
  "hasFlag s StatusOverheat = bit s 1"
  "hasFlag s StatusOutputLow = bit s 2"
  "hasFlag s StatusOutputHigh = bit s 3"
  "hasFlag s StatusFuelLow = bit s 4"
  "hasFlag s StatusFuelOut = bit s 5"
  "hasFlag s StatusMeltdown = bit s 6"
  "hasFlag s StatusScram = bit s 7"
  by (simp_all add: hasFlag_def bit_iff_and_push_bit_not_eq_0 StatusTempLow_def
      StatusOverheat_def StatusOutputLow_def StatusOutputHigh_def StatusFuelLow_def
      StatusFuelOut_def StatusMeltdown_def StatusScram_def)

lemma bit_Status:
  "bit StatusTempLow n = (n = 0)"
  "bit StatusOverheat n = (n = 1)"
  "bit StatusOutputLow n = (n = 2)"
  "bit StatusOutputHigh n = (n = 3)"
  "bit StatusFuelLow n = (n = 4)"
  "bit StatusFuelOut n = (n = 5)"
  "bit StatusMeltdown n = (n = 6)"
  "bit StatusScram n = (n = 7)"
  "bit StatusNone n = False"
  unfolding StatusTempLow_def StatusOverheat_def StatusOutputLow_def StatusOutputHigh_def
    StatusFuelLow_def StatusFuelOut_def StatusMeltdown_def StatusScram_def StatusNone_def
  by (auto simp only: bit_push_bit_iff bit_1_iff possible_bit_word len_of_numeral_defs
      bit_0_eq)

lemma reactor0_eval:
  "heap0 = [\<lparr>Condition = 100\<rparr>]"
  "reactor0 =
     \<lparr>state = \<lparr>IsPoweredOn = True, IsAutoControl = True, Temperature = 350,
               FissionRate = 285 / 16, TurbineOutput = 3000 / 49,
               PowerOutput = 1000, PowerLoad = 1000,
               FuelRod = Some 0, Status = 0\<rparr>,
      MAX_TEMP = 1000, MAX_POWER_OUTPUT = 5000, MELTDOWN_TEMP = 900,
      OVERHEAT_TEMP = 600, LOW_TEMP = 200, OPTIMAL_TEMP = 350,
      FUEL_CONSUMPTION_RATE = 0.05, HEAT_GENERATION_RATE = 800,
      AMBIENT_TEMP_DISSIPATION = 0.05, TURBINE_POWER_FACTOR = 8,
      LOW_FUEL_THRESHOLD = 20,
      baseLoad = 1000, spikeTimer = 10, isSpiking = False, spikeElapsed = 0,
      spikeDuration = 10, spikeMagnitude = 1000\<rparr>"
  by (simp_all add: heap0_def reactor0_def NewReactor_def alloc_def Let_def StatusNone_def)

text \<open>The equations that evaluate the model on a concrete reactor.\<close>

lemmas tick_defs = Update.simps updateGridLoad_def math_Round_def shutdownCooling_def
  runAutoControlLocked_def burnFuel.simps runTurbine_def updateStatusLocked_def
  min_go_def max_go_def clamp_def Let_def

lemmas command_defs = PowerOn_def PowerOff_def Scram_def ToggleAuto_def SetFissionRate_def
  SetTurbineOutput_def SetPowerLoad_def Snapshot_def Refuel.simps alloc_def

lemmas flag_defs = StatusNone_def StatusTempLow_def StatusOverheat_def StatusOutputLow_def
  StatusOutputHigh_def StatusFuelLow_def StatusFuelOut_def StatusMeltdown_def StatusScram_def

subsection \<open>Status evaluation\<close>

text \<open>
  \<^verbatim>\<open>updateStatusLocked\<close> writes \<open>Status\<close> and \<open>FuelRod\<close> only, and each flag
  of the new status word is decided by one condition on the state it was computed from.
\<close>

lemma updateStatusLocked_frame:
  "IsPoweredOn (state (updateStatusLocked h r)) = IsPoweredOn (state r)"
  "IsAutoControl (state (updateStatusLocked h r)) = IsAutoControl (state r)"
  "Temperature (state (updateStatusLocked h r)) = Temperature (state r)"
  "FissionRate (state (updateStatusLocked h r)) = FissionRate (state r)"
  "TurbineOutput (state (updateStatusLocked h r)) = TurbineOutput (state r)"
  "PowerOutput (state (updateStatusLocked h r)) = PowerOutput (state r)"
  "PowerLoad (state (updateStatusLocked h r)) = PowerLoad (state r)"
  "updateStatusLocked h r = r\<lparr>state := state (updateStatusLocked h r)\<rparr>"
  by (simp_all add: updateStatusLocked_def Let_def split_def split: option.split)

lemma updateStatusLocked_flags:
  "hasFlag (Status (state (updateStatusLocked h r))) StatusScram
     = hasFlag (Status (state r)) StatusScram"
  "hasFlag (Status (state (updateStatusLocked h r))) StatusMeltdown
     = (Temperature (state r) \<ge> MELTDOWN_TEMP r)"
  "hasFlag (Status (state (updateStatusLocked h r))) StatusOverheat
     = (\<not> Temperature (state r) \<ge> MELTDOWN_TEMP r \<and> Temperature (state r) \<ge> OVERHEAT_TEMP r)"
  "hasFlag (Status (state (updateStatusLocked h r))) StatusTempLow
     = (\<not> Temperature (state r) \<ge> MELTDOWN_TEMP r \<and> \<not> Temperature (state r) \<ge> OVERHEAT_TEMP r
        \<and> Temperature (state r) < LOW_TEMP r \<and> IsPoweredOn (state r) \<and> PowerOutput (state r) > 0)"
  "hasFlag (Status (state (updateStatusLocked h r))) StatusOutputHigh
     = (PowerOutput (state r) - PowerLoad (state r) > PowerLoad (state r) * 0.2
        \<and> PowerLoad (state r) > 100)"
  "hasFlag (Status (state (updateStatusLocked h r))) StatusOutputLow
     = (PowerOutput (state r) - PowerLoad (state r) < - PowerLoad (state r) * 0.2
        \<and> PowerLoad (state r) > 100)"
  "hasFlag (Status (state (updateStatusLocked h r))) StatusFuelOut
     = (case fuelCondition h (state r) of None \<Rightarrow> True | Some c \<Rightarrow> c \<le> 0)"
  "hasFlag (Status (state (updateStatusLocked h r))) StatusFuelLow
     = (case fuelCondition h (state r) of None \<Rightarrow> False
        | Some c \<Rightarrow> \<not> c \<le> 0 \<and> c < LOW_FUEL_THRESHOLD r)"
  by (auto simp add: updateStatusLocked_def Let_def split_def hasFlag_bit bit_or_iff
      bit_and_iff bit_Status fuelCondition_def split: option.split)

lemma updateStatusLocked_FuelRod:
  "FuelRod (state (updateStatusLocked h r))
     = (case fuelCondition h (state r) of None \<Rightarrow> None
        | Some c \<Rightarrow> if c \<le> 0 then None else FuelRod (state r))"
  by (simp add: updateStatusLocked_def Let_def split_def fuelCondition_def split: option.split)

subsection \<open>What each block of the tick leaves alone\<close>

lemma has_constants_state_update [simp]:
  "has_constants (r\<lparr>state := s\<rparr>) = has_constants r"
  by (simp add: has_constants_def)

lemma shutdownCooling_frame:
  "IsPoweredOn (state (shutdownCooling d r)) = IsPoweredOn (state r)"
  "IsAutoControl (state (shutdownCooling d r)) = IsAutoControl (state r)"
  "FissionRate (state (shutdownCooling d r)) = 0"
  "TurbineOutput (state (shutdownCooling d r)) = TurbineOutput (state r)"
  "PowerLoad (state (shutdownCooling d r)) = PowerLoad (state r)"
  "FuelRod (state (shutdownCooling d r)) = FuelRod (state r)"
  "Status (state (shutdownCooling d r)) = Status (state r)"
  "has_constants (shutdownCooling d r) = has_constants r"
  by (simp_all add: shutdownCooling_def Let_def)

lemma runTurbine_frame:
  "IsPoweredOn (state (runTurbine d r)) = IsPoweredOn (state r)"
  "IsAutoControl (state (runTurbine d r)) = IsAutoControl (state r)"
  "FissionRate (state (runTurbine d r)) = FissionRate (state r)"
  "TurbineOutput (state (runTurbine d r)) = TurbineOutput (state r)"
  "PowerLoad (state (runTurbine d r)) = PowerLoad (state r)"
  "FuelRod (state (runTurbine d r)) = FuelRod (state r)"
  "Status (state (runTurbine d r)) = Status (state r)"
  "has_constants (runTurbine d r) = has_constants r"
  by (simp_all add: runTurbine_def Let_def)

lemma runAutoControlLocked_frame:
  "IsPoweredOn (state (runAutoControlLocked r)) = IsPoweredOn (state r)"
  "IsAutoControl (state (runAutoControlLocked r)) = IsAutoControl (state r)"
  "Temperature (state (runAutoControlLocked r)) = Temperature (state r)"
  "PowerOutput (state (runAutoControlLocked r)) = PowerOutput (state r)"
  "PowerLoad (state (runAutoControlLocked r)) = PowerLoad (state r)"
  "FuelRod (state (runAutoControlLocked r)) = FuelRod (state r)"
  "Status (state (runAutoControlLocked r)) = Status (state r)"
  "has_constants (runAutoControlLocked r) = has_constants r"
  by (simp_all add: runAutoControlLocked_def Let_def)

lemma burnFuel_frame:
  "IsPoweredOn (state (snd (burnFuel d (h, r)))) = IsPoweredOn (state r)"
  "IsAutoControl (state (snd (burnFuel d (h, r)))) = IsAutoControl (state r)"
  "FissionRate (state (snd (burnFuel d (h, r)))) = FissionRate (state r)"
  "TurbineOutput (state (snd (burnFuel d (h, r)))) = TurbineOutput (state r)"
  "PowerOutput (state (snd (burnFuel d (h, r)))) = PowerOutput (state r)"
  "PowerLoad (state (snd (burnFuel d (h, r)))) = PowerLoad (state r)"
  "FuelRod (state (snd (burnFuel d (h, r)))) = FuelRod (state r)"
  "Status (state (snd (burnFuel d (h, r)))) = Status (state r)"
  "has_constants (snd (burnFuel d (h, r))) = has_constants r"
  by (simp_all add: burnFuel.simps Let_def split: option.split)

lemma updateGridLoad_frame:
  "IsPoweredOn (state (updateGridLoad d u1 u2 r)) = IsPoweredOn (state r)"
  "IsAutoControl (state (updateGridLoad d u1 u2 r)) = IsAutoControl (state r)"
  "Temperature (state (updateGridLoad d u1 u2 r)) = Temperature (state r)"
  "FissionRate (state (updateGridLoad d u1 u2 r)) = FissionRate (state r)"
  "TurbineOutput (state (updateGridLoad d u1 u2 r)) = TurbineOutput (state r)"
  "PowerOutput (state (updateGridLoad d u1 u2 r)) = PowerOutput (state r)"
  "FuelRod (state (updateGridLoad d u1 u2 r)) = FuelRod (state r)"
  "Status (state (updateGridLoad d u1 u2 r)) = Status (state r)"
  "has_constants (updateGridLoad d u1 u2 r) = has_constants r"
  by (simp_all add: updateGridLoad_def Let_def split_def has_constants_def)

lemma updateStatusLocked_constants:
  "has_constants (updateStatusLocked h r) = has_constants r"
  by (subst updateStatusLocked_frame(8)) simp

lemmas frames = shutdownCooling_frame runTurbine_frame runAutoControlLocked_frame
  burnFuel_frame updateGridLoad_frame updateStatusLocked_frame(1-7) updateStatusLocked_constants

lemma Update_frame:
  "IsPoweredOn (state (snd (Update d u1 u2 (h, r)))) = IsPoweredOn (state r)"
  "IsAutoControl (state (snd (Update d u1 u2 (h, r)))) = IsAutoControl (state r)"
  "hasFlag (Status (state (snd (Update d u1 u2 (h, r))))) StatusScram
     = hasFlag (Status (state r)) StatusScram"
  "has_constants (snd (Update d u1 u2 (h, r))) = has_constants r"
  by (simp_all add: Update.simps Let_def split_def frames updateStatusLocked_flags)

subsection \<open>The tick keeps the physical fields in range\<close>

lemma potentialPower_nonneg:
  assumes "0 \<le> T" "0 \<le> tau"
  shows "0 \<le> T * (tau / 100) * min_go 1 (T / 600) * 8"
proof -
  have "0 \<le> min_go 1 (T / 600)" using assms by (simp add: min_go_def)
  moreover have "0 \<le> T * (tau / 100)" using assms by simp
  ultimately have "0 \<le> T * (tau / 100) * min_go 1 (T / 600)" by (rule mult_nonneg_nonneg[rotated])
  then show ?thesis by simp
qed

lemma shutdownCooling_ranges:
  assumes "has_constants r" "0 \<le> Temperature (state r)" "0 \<le> TurbineOutput (state r)"
  shows "0 \<le> Temperature (state (shutdownCooling d r))"
    and "0 \<le> PowerOutput (state (shutdownCooling d r))"
    and "PowerOutput (state (shutdownCooling d r)) \<le> 5000"
  using assms potentialPower_nonneg [of "Temperature (state r)" "TurbineOutput (state r)"]
  by (simp_all add: shutdownCooling_def Let_def has_constants_def min_go_def)

lemma runTurbine_ranges:
  assumes "has_constants r" "0 \<le> Temperature (state r)" "0 \<le> TurbineOutput (state r)"
  shows "0 \<le> Temperature (state (runTurbine d r))"
    and "0 \<le> PowerOutput (state (runTurbine d r))"
    and "PowerOutput (state (runTurbine d r)) \<le> 5000"
  using assms potentialPower_nonneg [of "Temperature (state r)" "TurbineOutput (state r)"]
  by (simp_all add: runTurbine_def Let_def has_constants_def min_go_def)

lemma runAutoControlLocked_ranges:
  "0 \<le> FissionRate (state (runAutoControlLocked r))"
  "FissionRate (state (runAutoControlLocked r)) \<le> 100"
  "0 \<le> TurbineOutput (state (runAutoControlLocked r))"
  "TurbineOutput (state (runAutoControlLocked r)) \<le> 100"
  by (simp_all add: runAutoControlLocked_def Let_def clamp_def)

lemma burnFuel_Temperature:
  assumes "has_constants r" "0 \<le> Temperature (state r)" "0 \<le> FissionRate (state r)" "0 \<le> d"
  shows "0 \<le> Temperature (state (snd (burnFuel d (h, r))))"
  using assms
  by (simp add: burnFuel.simps Let_def has_constants_def split: option.split)

lemma has_constants_MAX: "has_constants r \<Longrightarrow> MAX_POWER_OUTPUT r = 5000"
  by (simp add: has_constants_def)

text \<open>
  In exact arithmetic, for every step \<open>delta \<ge> 0\<close> and every valid reactor state (with
  the constants of \<^verbatim>\<open>NewReactor\<close>), the state after one \<^verbatim>\<open>Update(delta)\<close> has
  \<open>FissionRate\<close> and \<open>TurbineOutput\<close> in \<open>[0, 100]\<close>, \<open>Temperature \<ge> 0\<close> and
  \<open>PowerOutput\<close> in \<open>[0, MAX_POWER_OUTPUT]\<close>, whatever the random draws. This is a
  statement about the real-valued model only: it does not see a \<^verbatim>\<open>float64\<close>
  overflow.
\<close>

lemma Update_keeps_ranges:
  assumes "has_constants r" and "valid_state h r" and "0 \<le> delta"
  shows "ranges_ok (snd (Update delta u1 u2 (h, r)))"
proof -
  let ?g = "updateGridLoad delta u1 u2 r"
  have c: "has_constants ?g" using assms(1) by (simp add: frames)
  have v: "0 \<le> FissionRate (state ?g)" "FissionRate (state ?g) \<le> 100"
    "0 \<le> TurbineOutput (state ?g)" "TurbineOutput (state ?g) \<le> 100"
    "0 \<le> Temperature (state ?g)"
    using assms(2) by (simp_all add: valid_state_def frames)
  show ?thesis
  proof (cases "\<not> IsPoweredOn (state ?g) \<or> (Status (state ?g) AND StatusScram) \<noteq> 0")
    case True
    then have "snd (Update delta u1 u2 (h, r)) = updateStatusLocked h (shutdownCooling delta ?g)"
      by (simp add: Update.simps Let_def)
    moreover have "MAX_POWER_OUTPUT (updateStatusLocked h (shutdownCooling delta ?g)) = 5000"
      by (rule has_constants_MAX) (simp add: frames assms(1))
    ultimately show ?thesis
      using v shutdownCooling_ranges [OF c v(5) v(3), of delta]
      by (simp add: ranges_ok_def frames)
  next
    case False
    define a where "a = (if IsAutoControl (state ?g) then runAutoControlLocked ?g else ?g)"
    define b where "b = burnFuel delta (h, a)"
    have ca: "has_constants a" using c by (simp add: a_def frames)
    have va: "0 \<le> FissionRate (state a)" "FissionRate (state a) \<le> 100"
      "0 \<le> TurbineOutput (state a)" "TurbineOutput (state a) \<le> 100"
      "0 \<le> Temperature (state a)"
      using v by (simp_all add: a_def frames runAutoControlLocked_ranges)
    have cb: "has_constants (snd b)" using ca by (simp add: b_def frames)
    have vb: "0 \<le> FissionRate (state (snd b))" "FissionRate (state (snd b)) \<le> 100"
      "0 \<le> TurbineOutput (state (snd b))" "TurbineOutput (state (snd b)) \<le> 100"
      using va by (simp_all add: b_def frames)
    have tb: "0 \<le> Temperature (state (snd b))"
      unfolding b_def by (rule burnFuel_Temperature [OF ca va(5) va(1) assms(3)])
    from False have "snd (Update delta u1 u2 (h, r))
        = updateStatusLocked (fst b) (runTurbine delta (snd b))"
      by (simp add: Update.simps Let_def split_def a_def b_def)
    moreover have "MAX_POWER_OUTPUT (updateStatusLocked (fst b) (runTurbine delta (snd b))) = 5000"
      by (rule has_constants_MAX) (simp add: frames cb)
    ultimately show ?thesis
      using vb runTurbine_ranges [OF cb tb vb(3), of delta]
      by (simp add: ranges_ok_def frames)
  qed
qed

lemma Update_keeps_ranges_example:
  "has_constants reactor0 \<and> valid_state heap0 reactor0 \<and> (0::real) \<le> 0.2
   \<and> ranges_ok (snd (Update 0.2 0.5 0.5 (heap0, reactor0)))"
proof -
  have c: "has_constants reactor0"
    by (simp add: reactor0_eval has_constants_def)
  have v: "valid_state heap0 reactor0"
    by (simp add: reactor0_eval valid_state_def fuelCondition_def)
  have d: "(0::real) \<le> 0.2" by simp
  show ?thesis using c v d Update_keeps_ranges [OF c v d, of "0.5" "0.5"] by simp
qed

subsection \<open>Scram implies powered off\<close>

lemma perform_keeps_scram_inv:
  "scram_inv r \<Longrightarrow> scram_inv (snd (perform c (h, r)))"
  by (cases c)
    (auto simp: scram_inv_def PowerOn_def PowerOff_def Scram_def ToggleAuto_def
      SetFissionRate_def SetTurbineOutput_def SetPowerLoad_def Refuel.simps alloc_def
      Let_def Update_frame [unfolded hasFlag_bit] hasFlag_bit bit_and_iff bit_or_iff bit_not_iff bit_Status)

lemma performAll_keeps_scram_inv:
  "scram_inv (snd hr) \<Longrightarrow> scram_inv (snd (performAll cs hr))"
proof (induction cs arbitrary: hr)
  case Nil
  then show ?case by simp
next
  case (Cons c cs)
  obtain h r where hr: "hr = (h, r)" by (cases hr)
  with Cons.prems have "scram_inv (snd (perform c hr))"
    by (simp add: perform_keeps_scram_inv)
  then show ?case by (simp add: Cons.IH)
qed

lemma NewReactor_scram_inv: "scram_inv (snd (NewReactor h))"
  by (simp add: scram_inv_def NewReactor_def alloc_def Let_def hasFlag_bit bit_Status)

lemma perform_keeps_Scram_flag:
  "c \<noteq> OpPowerOn \<Longrightarrow> hasFlag (Status (state r)) StatusScram \<Longrightarrow>
   hasFlag (Status (state (snd (perform c (h, r))))) StatusScram"
  by (cases c)
    (auto simp: PowerOff_def Scram_def ToggleAuto_def
      SetFissionRate_def SetTurbineOutput_def SetPowerLoad_def Refuel.simps alloc_def
      Let_def Update_frame [unfolded hasFlag_bit] hasFlag_bit bit_and_iff bit_or_iff bit_not_iff bit_Status)

lemma Scram_forces_shutdown:
  "hasFlag (Status (state (Scram r))) StatusScram \<and> \<not> IsPoweredOn (state (Scram r))"
  by (simp add: Scram_def Let_def hasFlag_bit bit_or_iff bit_Status)

lemma PowerOn_clears_only_with_power:
  "hasFlag (Status (state r)) StatusScram \<Longrightarrow>
   \<not> hasFlag (Status (state (PowerOn r))) StatusScram \<Longrightarrow> IsPoweredOn (state (PowerOn r))"
  by (auto simp: PowerOn_def Let_def split: if_splits)

text \<open>
  C3. "Scram set implies powered off" holds in the state \<^verbatim>\<open>NewReactor\<close> builds, is
  preserved by every operation (power on and off, scram, toggle auto, the three
  setters, refuel, a tick), hence holds after every sequence of operations.
  \<^verbatim>\<open>Scram\<close> sets the bit and switches the power off. No operation other than
  power-on clears the bit, and whenever power-on clears it the reactor is on afterwards.
\<close>

theorem scram_implies_off:
  "scram_inv (snd (NewReactor h0))
   \<and> (scram_inv r \<longrightarrow> scram_inv (snd (perform c (h, r))))
   \<and> scram_inv (snd (performAll cs (NewReactor h0)))
   \<and> hasFlag (Status (state (Scram r))) StatusScram \<and> \<not> IsPoweredOn (state (Scram r))
   \<and> (c \<noteq> OpPowerOn \<and> hasFlag (Status (state r)) StatusScram \<longrightarrow>
        hasFlag (Status (state (snd (perform c (h, r))))) StatusScram)
   \<and> (hasFlag (Status (state r)) StatusScram
        \<and> \<not> hasFlag (Status (state (PowerOn r))) StatusScram \<longrightarrow>
        IsPoweredOn (state (PowerOn r)))"
  using NewReactor_scram_inv [of h0] perform_keeps_scram_inv [of r c h]
    performAll_keeps_scram_inv [of "NewReactor h0" cs] Scram_forces_shutdown [of r]
    perform_keeps_Scram_flag [of c r h] PowerOn_clears_only_with_power [of r]
  by blast

theorem scram_implies_off_witness:
  "scram_inv (Scram reactor0)
   \<and> scram_inv (snd (perform (OpAdvance 0.2 0.5 0.5) (heap0, Scram reactor0)))
   \<and> OpAdvance 0.2 0.5 0.5 \<noteq> OpPowerOn
   \<and> hasFlag (Status (state (Scram reactor0))) StatusScram
   \<and> hasFlag (Status (state (snd (perform (OpAdvance 0.2 0.5 0.5) (heap0, Scram reactor0)))))
        StatusScram
   \<and> \<not> hasFlag (Status (state (PowerOn (Scram reactor0)))) StatusScram
   \<and> IsPoweredOn (state (PowerOn (Scram reactor0)))"
proof -
  have i: "scram_inv (Scram reactor0)"
    by (simp add: scram_inv_def Scram_def Let_def)
  have f: "hasFlag (Status (state (Scram reactor0))) StatusScram"
    by (simp add: Scram_def Let_def hasFlag_bit bit_or_iff bit_Status)
  have n: "\<not> hasFlag (Status (state (PowerOn (Scram reactor0)))) StatusScram"
    by (simp add: Scram_def PowerOn_def Let_def hasFlag_bit bit_and_iff bit_not_iff
        bit_or_iff bit_Status)
  show ?thesis
    using i f n scram_implies_off [of "[]" "Scram reactor0" "OpAdvance 0.2 0.5 0.5" heap0 "[]"]
    by simp
qed

subsection \<open>Mutually exclusive flags\<close>

lemma Update_is_status_evaluation:
  "\<exists>h' r'. Update d u1 u2 (h, r) = (h', updateStatusLocked h' r')"
  by (auto simp add: Update.simps Let_def split_def)

text \<open>
  C6. After every \<^verbatim>\<open>Update\<close>, no two of the heat flags TempLow, Overheat and
  Meltdown are set together, OutputLow and OutputHigh are not both set, and an output
  flag is set only if the load of that state exceeds 100.
\<close>

theorem status_flags_exclusive:
  "\<not> (hasFlag (Status (state (snd (Update d u1 u2 (h, r))))) StatusTempLow
       \<and> hasFlag (Status (state (snd (Update d u1 u2 (h, r))))) StatusOverheat)
   \<and> \<not> (hasFlag (Status (state (snd (Update d u1 u2 (h, r))))) StatusTempLow
       \<and> hasFlag (Status (state (snd (Update d u1 u2 (h, r))))) StatusMeltdown)
   \<and> \<not> (hasFlag (Status (state (snd (Update d u1 u2 (h, r))))) StatusOverheat
       \<and> hasFlag (Status (state (snd (Update d u1 u2 (h, r))))) StatusMeltdown)
   \<and> \<not> (hasFlag (Status (state (snd (Update d u1 u2 (h, r))))) StatusOutputLow
       \<and> hasFlag (Status (state (snd (Update d u1 u2 (h, r))))) StatusOutputHigh)
   \<and> (hasFlag (Status (state (snd (Update d u1 u2 (h, r))))) StatusOutputLow
       \<longrightarrow> PowerLoad (state (snd (Update d u1 u2 (h, r)))) > 100)
   \<and> (hasFlag (Status (state (snd (Update d u1 u2 (h, r))))) StatusOutputHigh
       \<longrightarrow> PowerLoad (state (snd (Update d u1 u2 (h, r)))) > 100)"
proof -
  obtain h' r' where "Update d u1 u2 (h, r) = (h', updateStatusLocked h' r')"
    using Update_is_status_evaluation by blast
  then show ?thesis
    by (auto simp add: updateStatusLocked_flags updateStatusLocked_frame(1-7))
qed

lemma tick_cold_turbine_closed:
  "state (snd (Update 0.2 0.5 0.5 (heap0, Scram (SetTurbineOutput 0 (ToggleAuto reactor0)))))
   = \<lparr>IsPoweredOn = False, IsAutoControl = False, Temperature = 343,
      FissionRate = 0, TurbineOutput = 0, PowerOutput = 0,
      PowerLoad = 1000, FuelRod = Some 0, Status = 132\<rparr>"
  by (simp add: reactor0_eval command_defs tick_defs flag_defs)

lemma tick_cold_turbine_open:
  "state (snd (Update 0.2 0.5 0.5 (heap0, Scram (SetTurbineOutput 100 (ToggleAuto reactor0)))))
   = \<lparr>IsPoweredOn = False, IsAutoControl = False, Temperature = 1813 / 6,
      FissionRate = 0, TurbineOutput = 100, PowerOutput = 4900 / 3,
      PowerLoad = 1000, FuelRod = Some 0, Status = 136\<rparr>"
  by (simp add: reactor0_eval command_defs tick_defs flag_defs)

theorem status_flags_exclusive_witness:
  "hasFlag (Status (state (snd (Update 0.2 0.5 0.5
      (heap0, Scram (SetTurbineOutput 0 (ToggleAuto reactor0))))))) StatusOutputLow
   \<and> 100 < PowerLoad (state (snd (Update 0.2 0.5 0.5
      (heap0, Scram (SetTurbineOutput 0 (ToggleAuto reactor0))))))
   \<and> hasFlag (Status (state (snd (Update 0.2 0.5 0.5
      (heap0, Scram (SetTurbineOutput 100 (ToggleAuto reactor0))))))) StatusOutputHigh
   \<and> 100 < PowerLoad (state (snd (Update 0.2 0.5 0.5
      (heap0, Scram (SetTurbineOutput 100 (ToggleAuto reactor0))))))"
proof -
  have l: "hasFlag (Status (state (snd (Update 0.2 0.5 0.5
      (heap0, Scram (SetTurbineOutput 0 (ToggleAuto reactor0))))))) StatusOutputLow"
    by (simp only: tick_cold_turbine_closed) (simp add: hasFlag_def flag_defs)
  have h: "hasFlag (Status (state (snd (Update 0.2 0.5 0.5
      (heap0, Scram (SetTurbineOutput 100 (ToggleAuto reactor0))))))) StatusOutputHigh"
    by (simp only: tick_cold_turbine_open) (simp add: hasFlag_def flag_defs)
  show ?thesis
    using l h
      status_flags_exclusive [of "0.2" "0.5" "0.5" heap0
        "Scram (SetTurbineOutput 0 (ToggleAuto reactor0))"]
      status_flags_exclusive [of "0.2" "0.5" "0.5" heap0
        "Scram (SetTurbineOutput 100 (ToggleAuto reactor0))"]
    by blast
qed

subsection \<open>Grid load\<close>

text \<open>\<open>math_Round\<close> returns an integer nearest to its argument, halves away from 0.\<close>

lemma math_Round_nearest:
  "math_Round x \<in> \<int> \<and> \<bar>math_Round x - x\<bar> \<le> 1 / 2"
proof
  show "math_Round x \<in> \<int>"
    by (simp add: math_Round_def)
  show "\<bar>math_Round x - x\<bar> \<le> 1 / 2"
  proof (cases "x < 0")
    case True
    define n where "n = \<lfloor>- x + 1 / 2\<rfloor>"
    have "real_of_int n \<le> - x + 1 / 2" "- x + 1 / 2 < real_of_int n + 1"
      unfolding n_def by linarith+
    moreover have "math_Round x = - real_of_int n"
      using True by (simp add: math_Round_def n_def)
    ultimately show ?thesis by linarith
  next
    case False
    define n where "n = \<lfloor>x + 1 / 2\<rfloor>"
    have "real_of_int n \<le> x + 1 / 2" "x + 1 / 2 < real_of_int n + 1"
      unfolding n_def by linarith+
    moreover have "math_Round x = real_of_int n"
      using False by (simp add: math_Round_def n_def)
    ultimately show ?thesis by linarith
  qed
qed

lemma math_Round_half: "math_Round (5 / 2) = 3" "math_Round (- 5 / 2) = - 3"
  by (simp_all add: math_Round_def)

text \<open>
  C9. One call of \<^verbatim>\<open>updateGridLoad\<close>, by the branch it takes. The base load is
  the old one plus \<open>24 * u1 - 12\<close>, clamped to \<open>[800, 2100]\<close>.
  \<^item> No spike active and the timer still positive after subtracting \<open>delta\<close>: the
    timer has decreased by \<open>delta\<close>, nothing else happens, the load is the rounded base.
  \<^item> No spike active and the timer at or below 0 after subtracting \<open>delta\<close>: a spike
    starts with elapsed time 0, the timer is set to \<open>10 + 5 * u2\<close>, in \<open>[10, 15)\<close> for
    a draw in \<open>[0, 1)\<close>; on this tick the load is still the rounded base.
  \<^item> Spike active and the elapsed time, advanced by \<open>delta\<close>, below the duration: the
    load is the rounded sum of base and \<open>magnitude * (1 - elapsed / duration)\<close>, which
    is \<open>1000 - 100 * elapsed\<close> under the constants of \<^verbatim>\<open>NewReactor\<close>; the timer
    does not run.
  \<^item> Spike active and the advanced elapsed time at or beyond the duration: the spike
    ends and the load is the rounded base.
  The load is an integer in every case.
\<close>

theorem updateGridLoad_spec:
  "let r' = updateGridLoad delta u1 u2 r; base = baseLoad r' in
     base = max 800 (min 2100 (baseLoad r + (u1 * 24 - 12)))
     \<and> spikeDuration r' = spikeDuration r \<and> spikeMagnitude r' = spikeMagnitude r
     \<and> (\<not> isSpiking r \<and> 0 < spikeTimer r - delta \<longrightarrow>
          \<not> isSpiking r' \<and> spikeTimer r' = spikeTimer r - delta
          \<and> spikeElapsed r' = spikeElapsed r
          \<and> PowerLoad (state r') = math_Round base)
     \<and> (\<not> isSpiking r \<and> spikeTimer r - delta \<le> 0 \<longrightarrow>
          isSpiking r' \<and> spikeElapsed r' = 0 \<and> spikeTimer r' = 10 + u2 * 5
          \<and> (0 \<le> u2 \<and> u2 < 1 \<longrightarrow> 10 \<le> spikeTimer r' \<and> spikeTimer r' < 15)
          \<and> PowerLoad (state r') = math_Round base)
     \<and> (isSpiking r \<and> spikeElapsed r + delta < spikeDuration r \<longrightarrow>
          isSpiking r' \<and> spikeElapsed r' = spikeElapsed r + delta
          \<and> spikeTimer r' = spikeTimer r
          \<and> PowerLoad (state r')
              = math_Round (base + spikeMagnitude r * (1 - spikeElapsed r' / spikeDuration r))
          \<and> (has_constants r \<longrightarrow>
                spikeMagnitude r * (1 - spikeElapsed r' / spikeDuration r)
                  = 1000 - 100 * spikeElapsed r'))
     \<and> (isSpiking r \<and> spikeDuration r \<le> spikeElapsed r + delta \<longrightarrow>
          \<not> isSpiking r' \<and> spikeTimer r' = spikeTimer r
          \<and> PowerLoad (state r') = math_Round base)
     \<and> PowerLoad (state r') \<in> \<int>"
  using math_Round_nearest
  by (auto simp add: updateGridLoad_def Let_def split_def clamp_def has_constants_def
      algebra_simps)


theorem updateGridLoad_spec_witness:
  "\<not> isSpiking reactor0 \<and> 0 < spikeTimer reactor0 - 0.2
   \<and> spikeTimer (updateGridLoad 0.2 0.5 0.5 reactor0) = 9.8
   \<and> PowerLoad (state (updateGridLoad 0.2 0.5 0.5 reactor0)) = 1000
   \<and> spikeTimer reactor0 - 10 \<le> 0 \<and> (0::real) \<le> 0.5 \<and> (0.5::real) < 1
   \<and> isSpiking (updateGridLoad 10 0.5 0.5 reactor0)
   \<and> spikeTimer (updateGridLoad 10 0.5 0.5 reactor0) = 12.5
   \<and> isSpiking (reactor0\<lparr>isSpiking := True\<rparr>)
   \<and> spikeElapsed (reactor0\<lparr>isSpiking := True\<rparr>) + 0.2
        < spikeDuration (reactor0\<lparr>isSpiking := True\<rparr>)
   \<and> has_constants (reactor0\<lparr>isSpiking := True\<rparr>)
   \<and> PowerLoad (state (updateGridLoad 0.2 0.5 0.5 (reactor0\<lparr>isSpiking := True\<rparr>))) = 1980
   \<and> spikeDuration (reactor0\<lparr>isSpiking := True\<rparr>)
        \<le> spikeElapsed (reactor0\<lparr>isSpiking := True\<rparr>) + 10
   \<and> \<not> isSpiking (updateGridLoad 10 0.5 0.5 (reactor0\<lparr>isSpiking := True\<rparr>))"
  using updateGridLoad_spec [of "0.2" "0.5" "0.5" reactor0]
    updateGridLoad_spec [of 10 "0.5" "0.5" reactor0]
    updateGridLoad_spec [of "0.2" "0.5" "0.5" "reactor0\<lparr>isSpiking := True\<rparr>"]
    updateGridLoad_spec [of 10 "0.5" "0.5" "reactor0\<lparr>isSpiking := True\<rparr>"]
  by (simp add: reactor0_eval updateGridLoad_def Let_def clamp_def math_Round_def
      has_constants_def)

subsection \<open>Fuel\<close>

lemma fuelCondition_cong:
  "FuelRod s = FuelRod s' \<Longrightarrow> fuelCondition h s = fuelCondition h s'"
  by (simp add: fuelCondition_def)

lemma updateStatusLocked_exhausted:
  assumes "case fuelCondition h (state r) of None \<Rightarrow> True | Some c \<Rightarrow> c \<le> 0"
  shows "hasFlag (Status (state (updateStatusLocked h r))) StatusFuelOut"
    and "FuelRod (state (updateStatusLocked h r)) = None"
  using assms
  by (simp_all add: updateStatusLocked_flags updateStatusLocked_FuelRod split: option.splits)

lemma updateStatusLocked_fuelled:
  assumes "fuelCondition h (state r) = Some c" "0 < c"
  shows "\<not> hasFlag (Status (state (updateStatusLocked h r))) StatusFuelOut"
    and "FuelRod (state (updateStatusLocked h r)) = FuelRod (state r)"
  using assms
  by (simp_all add: updateStatusLocked_flags updateStatusLocked_FuelRod)

lemma updateStatusLocked_rod_or_FuelOut:
  "(FuelRod (state (updateStatusLocked h r)) = None)
     = hasFlag (Status (state (updateStatusLocked h r))) StatusFuelOut"
  "FuelRod (state (updateStatusLocked h r)) = Some a \<Longrightarrow> 0 < Condition (h ! a)"
  by (auto simp add: updateStatusLocked_flags updateStatusLocked_FuelRod fuelCondition_def
      split: option.splits if_splits)

lemma Update_rod_or_FuelOut:
  "(FuelRod (state (snd (Update d u1 u2 (h, r)))) = None)
     = hasFlag (Status (state (snd (Update d u1 u2 (h, r))))) StatusFuelOut"
  "FuelRod (state (snd (Update d u1 u2 (h, r)))) = Some a \<Longrightarrow>
     0 < Condition (fst (Update d u1 u2 (h, r)) ! a)"
proof -
  obtain h' r' where u: "Update d u1 u2 (h, r) = (h', updateStatusLocked h' r')"
    using Update_is_status_evaluation by blast
  show "(FuelRod (state (snd (Update d u1 u2 (h, r)))) = None)
     = hasFlag (Status (state (snd (Update d u1 u2 (h, r))))) StatusFuelOut"
    by (simp add: u updateStatusLocked_rod_or_FuelOut(1))
  show "FuelRod (state (snd (Update d u1 u2 (h, r)))) = Some a \<Longrightarrow>
     0 < Condition (fst (Update d u1 u2 (h, r)) ! a)"
    by (simp add: u updateStatusLocked_rod_or_FuelOut(2))
qed

lemma burnFuel_condition:
  assumes "FuelRod (state r) = Some a" "a < length h" "0 < Condition (h ! a)"
  shows "fuelCondition (fst (burnFuel d (h, r))) (state r)
    = Some (max_go 0 (Condition (h ! a)
              - (FissionRate (state r) / 100) * FUEL_CONSUMPTION_RATE r * d))"
  using assms by (simp add: burnFuel.simps Let_def fuelCondition_def)

lemma Refuel_eq:
  "Refuel (h, r)
    = (h @ [\<lparr>Condition = 100\<rparr>], r\<lparr>state := (state r)\<lparr>FuelRod := Some (length h)\<rparr>\<rparr>)"
  by (simp add: Refuel.simps alloc_def)

lemma Update_running:
  assumes "IsPoweredOn (state r)" "\<not> hasFlag (Status (state r)) StatusScram"
  shows "Update d u1 u2 (h, r)
    = (let g = updateGridLoad d u1 u2 r;
           a = (if IsAutoControl (state r) then runAutoControlLocked g else g);
           b = burnFuel d (h, a)
       in (fst b, updateStatusLocked (fst b) (runTurbine d (snd b))))"
  using assms
  by (simp add: Update.simps Let_def split_def frames hasFlag_def)

lemma Update_shutdown:
  assumes "\<not> IsPoweredOn (state r) \<or> hasFlag (Status (state r)) StatusScram"
  shows "Update d u1 u2 (h, r)
    = (h, updateStatusLocked h (shutdownCooling d (updateGridLoad d u1 u2 r)))"
  using assms
  by (auto simp add: Update.simps Let_def split_def frames hasFlag_def)

lemma burn_exhausts:
  assumes on: "IsPoweredOn (state r)" "\<not> hasFlag (Status (state r)) StatusScram"
    and manual: "\<not> IsAutoControl (state r)"
    and rod: "FuelRod (state r) = Some a" "a < length h" "0 < Condition (h ! a)"
    and burn: "Condition (h ! a) \<le> (FissionRate (state r) / 100) * FUEL_CONSUMPTION_RATE r * d"
  shows "FuelRod (state (snd (Update d u1 u2 (h, r)))) = None
    \<and> hasFlag (Status (state (snd (Update d u1 u2 (h, r))))) StatusFuelOut"
proof -
  let ?g = "updateGridLoad d u1 u2 r"
  let ?b = "burnFuel d (h, ?g)"
  have g: "FuelRod (state ?g) = Some a" "FissionRate (state ?g) = FissionRate (state r)"
    "FUEL_CONSUMPTION_RATE ?g = FUEL_CONSUMPTION_RATE r"
    using rod(1) by (simp_all add: frames updateGridLoad_def Let_def split_def)
  have "fuelCondition (fst ?b) (state ?g) = Some 0"
    using burnFuel_condition [OF g(1) rod(2,3), of d] burn by (simp add: g max_go_def)
  moreover have "FuelRod (state (runTurbine d (snd ?b))) = FuelRod (state ?g)"
    by (simp add: frames)
  ultimately have "fuelCondition (fst ?b) (state (runTurbine d (snd ?b))) = Some 0"
    by (simp add: fuelCondition_def)
  then have "case fuelCondition (fst ?b) (state (runTurbine d (snd ?b))) of
      None \<Rightarrow> True | Some c \<Rightarrow> c \<le> 0"
    by simp
  from updateStatusLocked_exhausted [OF this] show ?thesis
    by (simp add: Update_running [OF on] manual Let_def)
qed

lemma refuelled_tick_clears_FuelOut:
  assumes c: "has_constants r" and f: "FissionRate (state r) \<le> 100"
    and d: "0 \<le> d" "d < 2000"
  shows "\<not> hasFlag (Status (state (snd (Update d u1 u2 (Refuel (h, r)))))) StatusFuelOut"
proof -
  let ?h = "h @ [\<lparr>Condition = 100\<rparr>]"
  let ?r = "r\<lparr>state := (state r)\<lparr>FuelRod := Some (length h)\<rparr>\<rparr>"
  let ?g = "updateGridLoad d u1 u2 ?r"
  have rod: "fuelCondition ?h (state ?g) = Some 100"
    by (simp add: fuelCondition_def frames)
  show ?thesis
  proof (cases "\<not> IsPoweredOn (state ?r) \<or> hasFlag (Status (state ?r)) StatusScram")
    case True
    have "fuelCondition ?h (state (shutdownCooling d ?g)) = Some 100"
      by (simp add: fuelCondition_def frames)
    from updateStatusLocked_fuelled(1) [OF this] show ?thesis
      by (simp add: Refuel_eq Update_shutdown [OF True])
  next
    case False
    then have on: "IsPoweredOn (state ?r)" "\<not> hasFlag (Status (state ?r)) StatusScram"
      by simp_all
    define a where "a = (if IsAutoControl (state ?r) then runAutoControlLocked ?g else ?g)"
    have "has_constants a"
      using c by (simp add: a_def frames)
    then have a3: "FUEL_CONSUMPTION_RATE a = 0.05"
      by (simp add: has_constants_def)
    have a: "FuelRod (state a) = Some (length h)" "FissionRate (state a) \<le> 100"
      using f by (simp_all add: a_def frames runAutoControlLocked_ranges)
    have "FissionRate (state a) / 100 * d \<le> 1 * d"
      using a(2) d(1) by (intro mult_right_mono) simp_all
    then have "FissionRate (state a) / 100 * FUEL_CONSUMPTION_RATE a * d < 100"
      using d(2) by (simp add: a3)
    then have "fuelCondition (fst (burnFuel d (?h, a))) (state a)
        = Some (100 - FissionRate (state a) / 100 * FUEL_CONSUMPTION_RATE a * d)"
      using burnFuel_condition [OF a(1), of ?h d] by (simp add: max_go_def)
    moreover have "FuelRod (state (runTurbine d (snd (burnFuel d (?h, a))))) = FuelRod (state a)"
      by (simp add: frames)
    ultimately have "fuelCondition (fst (burnFuel d (?h, a)))
          (state (runTurbine d (snd (burnFuel d (?h, a)))))
        = Some (100 - FissionRate (state a) / 100 * FUEL_CONSUMPTION_RATE a * d)"
      by (simp add: fuelCondition_def)
    from updateStatusLocked_fuelled(1) [OF this]
      \<open>FissionRate (state a) / 100 * FUEL_CONSUMPTION_RATE a * d < 100\<close>
    show ?thesis
      by (simp add: Refuel_eq Update_running [OF on] Let_def a_def)
  qed
qed


text \<open>
  C7. Fuel lifecycle.
  \<^item> A status recomputation on a rod that is absent or has condition \<open>\<le> 0\<close> sets
    FuelOut and leaves the pointer nil.
  \<^item> The tick on which a running reactor burns the rest of its rod (here under manual
    control: the consumption of the tick is at least the condition left) ends with the
    rod absent and FuelOut set.
  \<^item> After every tick the rod is absent exactly if FuelOut is set, and a rod that is
    present has a positive condition: an exhausted rod is never kept at zero.
  \<^item> \<^verbatim>\<open>Refuel\<close> allocates a new rod of condition 100, points the state at it and
    changes nothing else, the status word included.
  \<^item> A status recomputation on the refuelled state clears FuelOut, and so does the next
    tick of less than 2000 simulated seconds.
\<close>

theorem fuel_lifecycle:
  "((case fuelCondition h (state r) of None \<Rightarrow> True | Some c \<Rightarrow> c \<le> 0) \<longrightarrow>
      hasFlag (Status (state (updateStatusLocked h r))) StatusFuelOut
      \<and> FuelRod (state (updateStatusLocked h r)) = None)
   \<and> (IsPoweredOn (state r) \<and> \<not> hasFlag (Status (state r)) StatusScram
       \<and> \<not> IsAutoControl (state r)
       \<and> FuelRod (state r) = Some a \<and> a < length h \<and> 0 < Condition (h ! a)
       \<and> Condition (h ! a) \<le> (FissionRate (state r) / 100) * FUEL_CONSUMPTION_RATE r * d \<longrightarrow>
      FuelRod (state (snd (Update d u1 u2 (h, r)))) = None
      \<and> hasFlag (Status (state (snd (Update d u1 u2 (h, r))))) StatusFuelOut)
   \<and> ((FuelRod (state (snd (Update d u1 u2 (h, r)))) = None)
        = hasFlag (Status (state (snd (Update d u1 u2 (h, r))))) StatusFuelOut)
   \<and> (\<forall>b. FuelRod (state (snd (Update d u1 u2 (h, r)))) = Some b \<longrightarrow>
          0 < Condition (fst (Update d u1 u2 (h, r)) ! b))
   \<and> Refuel (h, r)
        = (h @ [\<lparr>Condition = 100\<rparr>], r\<lparr>state := (state r)\<lparr>FuelRod := Some (length h)\<rparr>\<rparr>)
   \<and> fuelCondition (fst (Refuel (h, r))) (state (snd (Refuel (h, r)))) = Some 100
   \<and> Status (state (snd (Refuel (h, r)))) = Status (state r)
   \<and> \<not> hasFlag (Status (state
          (updateStatusLocked (fst (Refuel (h, r))) (snd (Refuel (h, r)))))) StatusFuelOut
   \<and> (has_constants r \<and> FissionRate (state r) \<le> 100 \<and> 0 \<le> d \<and> d < 2000 \<longrightarrow>
        \<not> hasFlag (Status (state (snd (Update d u1 u2 (Refuel (h, r)))))) StatusFuelOut)"
proof -
  have rf: "fuelCondition (fst (Refuel (h, r))) (state (snd (Refuel (h, r)))) = Some 100"
    by (simp add: Refuel_eq fuelCondition_def)
  have "\<not> hasFlag (Status (state
          (updateStatusLocked (fst (Refuel (h, r))) (snd (Refuel (h, r)))))) StatusFuelOut"
    by (rule updateStatusLocked_fuelled(1) [OF rf]) simp
  moreover have "Status (state (snd (Refuel (h, r)))) = Status (state r)"
    by (simp add: Refuel_eq)
  ultimately show ?thesis
    using updateStatusLocked_exhausted [of h r] burn_exhausts [of r a h d u1 u2]
      Update_rod_or_FuelOut [of d u1 u2 h r] refuelled_tick_clears_FuelOut [of r d u1 u2 h]
      Refuel_eq [of h r] rf
    by blast
qed

theorem fuel_lifecycle_witness:
  "fuelCondition [\<lparr>Condition = 0\<rparr>] (state reactor0) = Some 0
   \<and> hasFlag (Status (state (updateStatusLocked [\<lparr>Condition = 0\<rparr>] reactor0))) StatusFuelOut
   \<and> FuelRod (state (updateStatusLocked [\<lparr>Condition = 0\<rparr>] reactor0)) = None
   \<and> IsPoweredOn (state (SetFissionRate 100 (ToggleAuto reactor0)))
   \<and> \<not> hasFlag (Status (state (SetFissionRate 100 (ToggleAuto reactor0)))) StatusScram
   \<and> \<not> IsAutoControl (state (SetFissionRate 100 (ToggleAuto reactor0)))
   \<and> FuelRod (state (SetFissionRate 100 (ToggleAuto reactor0))) = Some 0
   \<and> FuelRod (state (snd (Update 0.2 0.5 0.5
        ([\<lparr>Condition = 0.001\<rparr>], SetFissionRate 100 (ToggleAuto reactor0))))) = None
   \<and> hasFlag (Status (state (snd (Update 0.2 0.5 0.5
        ([\<lparr>Condition = 0.001\<rparr>], SetFissionRate 100 (ToggleAuto reactor0)))))) StatusFuelOut
   \<and> FuelRod (state (snd (Update 0.2 0.5 0.5 (heap0, reactor0)))) = Some 0
   \<and> 0 < Condition (fst (Update 0.2 0.5 0.5 (heap0, reactor0)) ! 0)
   \<and> has_constants reactor0 \<and> FissionRate (state reactor0) \<le> 100
   \<and> \<not> hasFlag (Status (state (snd (Update 0.2 0.5 0.5 (Refuel (heap0, reactor0))))))
        StatusFuelOut"
proof -
  let ?m = "SetFissionRate 100 (ToggleAuto reactor0)"
  have e: "fuelCondition [\<lparr>Condition = 0\<rparr>] (state reactor0) = Some 0"
    by (simp add: reactor0_eval fuelCondition_def)
  have b: "IsPoweredOn (state ?m)" "\<not> hasFlag (Status (state ?m)) StatusScram"
    "\<not> IsAutoControl (state ?m)" "FuelRod (state ?m) = Some 0"
    "(0::nat) < length [\<lparr>Condition = 0.001\<rparr>]" "0 < Condition ([\<lparr>Condition = 0.001\<rparr>] ! 0)"
    "Condition ([\<lparr>Condition = 0.001\<rparr>] ! 0)
       \<le> (FissionRate (state ?m) / 100) * FUEL_CONSUMPTION_RATE ?m * 0.2"
    by (simp_all add: reactor0_eval command_defs clamp_def hasFlag_def)
  have t: "FuelRod (state (snd (Update 0.2 0.5 0.5 (heap0, reactor0)))) = Some 0"
    by (simp add: reactor0_eval tick_defs flag_defs)
  have c: "has_constants reactor0" "FissionRate (state reactor0) \<le> 100"
    "(0::real) \<le> 0.2" "(0.2::real) < 2000"
    by (simp_all add: reactor0_eval has_constants_def)
  have e': "case fuelCondition [\<lparr>Condition = 0\<rparr>] (state reactor0) of
      None \<Rightarrow> True | Some c \<Rightarrow> c \<le> 0"
    by (simp add: e)
  have r1: "hasFlag (Status (state (updateStatusLocked [\<lparr>Condition = 0\<rparr>] reactor0)))
        StatusFuelOut
      \<and> FuelRod (state (updateStatusLocked [\<lparr>Condition = 0\<rparr>] reactor0)) = None"
    using e' fuel_lifecycle [of "[\<lparr>Condition = 0\<rparr>]" reactor0 0 "0.2" "0.5" "0.5"]
    by blast
  have r2: "FuelRod (state (snd (Update 0.2 0.5 0.5 ([\<lparr>Condition = 0.001\<rparr>], ?m)))) = None
      \<and> hasFlag (Status (state (snd (Update 0.2 0.5 0.5 ([\<lparr>Condition = 0.001\<rparr>], ?m)))))
          StatusFuelOut"
    using b fuel_lifecycle [of "[\<lparr>Condition = 0.001\<rparr>]" ?m 0 "0.2" "0.5" "0.5"]
    by blast
  have r3: "0 < Condition (fst (Update 0.2 0.5 0.5 (heap0, reactor0)) ! 0)
      \<and> \<not> hasFlag (Status (state (snd (Update 0.2 0.5 0.5 (Refuel (heap0, reactor0))))))
          StatusFuelOut"
    using t c fuel_lifecycle [of heap0 reactor0 0 "0.2" "0.5" "0.5"]
    by blast
  show ?thesis
    using e b(1-4) r1 r2 t r3 c(1,2) by blast
qed

subsection \<open>Snapshots\<close>

text \<open>
  The snapshot equals the state it was taken from. No command changes what is seen
  through a snapshot taken earlier: the commands do not write to the heap, and
  \<^verbatim>\<open>Refuel\<close> allocates a new cell. The tick is the exception, shown below.
\<close>

lemma commands_keep_snapshot:
  assumes "rod_allocated h s" and "\<forall>delta u1 u2. c \<noteq> OpAdvance delta u1 u2"
  shows "fuelCondition (fst (perform c (h, r))) s = fuelCondition h s"
  using assms
  by (cases c)
    (auto simp: Refuel_eq rod_allocated_def fuelCondition_def nth_append split: option.splits)

text \<open>
  C2. \<^verbatim>\<open>Snapshot\<close> copies the struct, not the rod behind its pointer. Take a
  snapshot of the fresh reactor: the rod seen through it has condition 100. Run one
  tick of 0.2 (draws 0.5): the rod seen through the same, already returned snapshot
  now has condition 99.99821875, because \<^verbatim>\<open>Update\<close> writes through the pointer
  that the snapshot shares.
\<close>

theorem Snapshot_shares_fuel_rod:
  "Snapshot reactor0 = state reactor0
   \<and> fuelCondition heap0 (Snapshot reactor0) = Some 100
   \<and> fuelCondition (fst (Update 0.2 0.5 0.5 (heap0, reactor0))) (Snapshot reactor0)
       = Some (3199943 / 32000)"
  by (simp add: reactor0_eval fuelCondition_def Snapshot_def tick_defs flag_defs)

subsection \<open>Cooling down after a scram\<close>

text \<open>One tick of 0.2 on a reactor that is off, hot and has its turbine in range.\<close>

lemma shutdownCooling_step:
  assumes c: "has_constants r" and T: "0 < Temperature (state r)"
    and tau: "0 \<le> TurbineOutput (state r)" "TurbineOutput (state r) \<le> 100"
  shows "Temperature (state (shutdownCooling 0.2 r)) < Temperature (state r)"
    and "0.78 * Temperature (state r) \<le> Temperature (state (shutdownCooling 0.2 r))"
    and "(PowerOutput (state (shutdownCooling 0.2 r)) = 0) = (TurbineOutput (state r) = 0)"
    and "0 \<le> PowerOutput (state (shutdownCooling 0.2 r))"
proof -
  define t where "t = Temperature (state r)"
  define u where "u = TurbineOutput (state r) / 100"
  define e where "e = min_go 1 (t / 600)"
  define p where "p = min_go 5000 (t * u * e * 8)"
  have u: "0 \<le> u" "u \<le> 1" using tau by (simp_all add: u_def)
  have e: "0 < e" "e \<le> 1" using T by (simp_all add: e_def min_go_def t_def)
  have t: "0 < t" using T by (simp add: t_def)
  have ue: "0 \<le> u * e" "u * e \<le> 1"
    using u e by (simp_all add: mult_le_one)
  have "t * (u * e) \<le> t * 1"
    using ue(2) t by (intro mult_left_mono) simp_all
  then have tue: "t * u * e \<le> t" by (simp add: mult.assoc)
  have tue0: "0 \<le> t * u * e"
    using t ue(1) by (simp add: mult.assoc)
  define q where "q = t * u * e"
  have pq: "p = min_go 5000 (q * 8)" by (simp add: p_def q_def)
  have p: "0 \<le> p" "p \<le> t * 8"
    using tue tue0 unfolding pq q_def [symmetric] by (simp_all add: min_go_def)
  have "(q = 0) = (u = 0)"
    using t e(1) by (simp add: q_def)
  then have pz: "(p = 0) = (u = 0)"
    unfolding pq by (auto simp add: min_go_def)
  define t' where "t' = t - (p / 8 + t * (0.05 * 2)) * 0.2"
  have t': "t' < t" "0.78 * t \<le> t'"
    using p t by (simp_all add: t'_def)
  then have pos: "\<not> t' < 0" using t by simp
  have k: "OVERHEAT_TEMP r = 600" "MAX_POWER_OUTPUT r = 5000" "TURBINE_POWER_FACTOR r = 8"
    "AMBIENT_TEMP_DISSIPATION r = 0.05"
    using c by (simp_all add: has_constants_def)
  have "Temperature (state (shutdownCooling 0.2 r)) = (if t' < 0 then 0 else t')"
    "PowerOutput (state (shutdownCooling 0.2 r)) = (if t' < 0 then 0 else p)"
    by (simp_all add: shutdownCooling_def Let_def k t'_def p_def e_def u_def t_def)
  then have eq: "Temperature (state (shutdownCooling 0.2 r)) = t'"
    "PowerOutput (state (shutdownCooling 0.2 r)) = p"
    using pos by simp_all
  show "Temperature (state (shutdownCooling 0.2 r)) < Temperature (state r)"
    unfolding eq using t'(1) by (simp only: t_def)
  show "0.78 * Temperature (state r) \<le> Temperature (state (shutdownCooling 0.2 r))"
    unfolding eq using t'(2) by (simp only: t_def)
  show "(PowerOutput (state (shutdownCooling 0.2 r)) = 0) = (TurbineOutput (state r) = 0)"
    unfolding eq using pz by (simp add: u_def)
  show "0 \<le> PowerOutput (state (shutdownCooling 0.2 r))"
    unfolding eq by (rule p(1))
qed


lemma Update_cooling_step:
  assumes c: "has_constants r" and off: "\<not> IsPoweredOn (state r)"
    and T: "0 < Temperature (state r)"
    and tau: "0 \<le> TurbineOutput (state r)" "TurbineOutput (state r) \<le> 100"
  shows "has_constants (snd (Update 0.2 u1 u2 (h, r)))"
    and "\<not> IsPoweredOn (state (snd (Update 0.2 u1 u2 (h, r))))"
    and "TurbineOutput (state (snd (Update 0.2 u1 u2 (h, r)))) = TurbineOutput (state r)"
    and "Temperature (state (snd (Update 0.2 u1 u2 (h, r)))) < Temperature (state r)"
    and "0.78 * Temperature (state r) \<le> Temperature (state (snd (Update 0.2 u1 u2 (h, r))))"
    and "(PowerOutput (state (snd (Update 0.2 u1 u2 (h, r)))) = 0)
          = (TurbineOutput (state r) = 0)"
    and "0 \<le> PowerOutput (state (snd (Update 0.2 u1 u2 (h, r))))"
proof -
  let ?g = "updateGridLoad 0.2 u1 u2 r"
  have g: "has_constants ?g" "0 < Temperature (state ?g)"
    "0 \<le> TurbineOutput (state ?g)" "TurbineOutput (state ?g) \<le> 100"
    using c T tau by (simp_all add: frames)
  have u: "snd (Update 0.2 u1 u2 (h, r)) = updateStatusLocked h (shutdownCooling 0.2 ?g)"
    using off by (simp add: Update_shutdown)
  show "has_constants (snd (Update 0.2 u1 u2 (h, r)))"
    unfolding u using c by (simp add: frames)
  show "\<not> IsPoweredOn (state (snd (Update 0.2 u1 u2 (h, r))))"
    unfolding u using off by (simp add: frames)
  show "TurbineOutput (state (snd (Update 0.2 u1 u2 (h, r)))) = TurbineOutput (state r)"
    unfolding u by (simp add: frames)
  show "Temperature (state (snd (Update 0.2 u1 u2 (h, r)))) < Temperature (state r)"
    unfolding u using shutdownCooling_step(1) [OF g] by (simp add: frames)
  show "0.78 * Temperature (state r) \<le> Temperature (state (snd (Update 0.2 u1 u2 (h, r))))"
    unfolding u using shutdownCooling_step(2) [OF g] by (simp add: frames)
  show "(PowerOutput (state (snd (Update 0.2 u1 u2 (h, r)))) = 0)
          = (TurbineOutput (state r) = 0)"
    unfolding u using shutdownCooling_step(3) [OF g] by (simp add: frames)
  show "0 \<le> PowerOutput (state (snd (Update 0.2 u1 u2 (h, r))))"
    unfolding u using shutdownCooling_step(4) [OF g] by (simp add: frames)
qed

lemma ticks_cooling:
  assumes "has_constants r" "\<not> IsPoweredOn (state r)" "0 < Temperature (state r)"
    "0 \<le> TurbineOutput (state r)" "TurbineOutput (state r) \<le> 100"
  shows "has_constants (snd (ticks 0.2 ds (h, r)))
    \<and> \<not> IsPoweredOn (state (snd (ticks 0.2 ds (h, r))))
    \<and> 0 < Temperature (state (snd (ticks 0.2 ds (h, r))))
    \<and> Temperature (state (snd (ticks 0.2 ds (h, r)))) \<le> Temperature (state r)
    \<and> TurbineOutput (state (snd (ticks 0.2 ds (h, r)))) = TurbineOutput (state r)"
  using assms
proof (induction ds arbitrary: h r)
  case Nil
  then show ?case by simp
next
  case (Cons d ds)
  obtain u1 u2 where d: "d = (u1, u2)" by (cases d)
  obtain h' r' where s: "Update 0.2 u1 u2 (h, r) = (h', r')"
    by (cases "Update 0.2 u1 u2 (h, r)")
  note step = Update_cooling_step [OF Cons.prems, of u1 u2 h, unfolded s snd_conv]
  have pos: "0 < Temperature (state r')"
    using step(5) Cons.prems(3) by simp
  have rng: "0 \<le> TurbineOutput (state r')" "TurbineOutput (state r') \<le> 100"
    using step(3) Cons.prems(4,5) by simp_all
  from Cons.IH [OF step(1) step(2) pos rng, of h'] step(3,4)
  show ?case unfolding d ticks.simps s by simp
qed


text \<open>
  C4, as the code has it. After \<^verbatim>\<open>Scram\<close> at temperature 950, with the turbine
  output anywhere in \<open>[0, 100]\<close>, each of the first 10000 ticks of 0.2 lowers the
  temperature strictly and leaves it positive. After each of those ticks the power output
  is positive if the turbine output is at least 1, and 0 if the turbine output is 0: the
  power output can be 0 while the temperature is still positive.
\<close>

theorem scram_cooldown:
  assumes "has_constants r" and "Temperature (state r) = 950"
    and "0 \<le> TurbineOutput (state r)" and "TurbineOutput (state r) \<le> 100"
    and "length ds < 10000"
  shows "let before = ticks 0.2 ds (h, Scram r); after = Update 0.2 u1 u2 before in
     Temperature (state (snd after)) < Temperature (state (snd before))
     \<and> 0 < Temperature (state (snd after))
     \<and> (1 \<le> TurbineOutput (state r) \<longrightarrow> 0 < PowerOutput (state (snd after)))
     \<and> (TurbineOutput (state r) = 0 \<longrightarrow> PowerOutput (state (snd after)) = 0)"
proof -
  have s: "has_constants (Scram r)" "\<not> IsPoweredOn (state (Scram r))"
    "0 < Temperature (state (Scram r))"
    "0 \<le> TurbineOutput (state (Scram r))" "TurbineOutput (state (Scram r)) \<le> 100"
    "TurbineOutput (state (Scram r)) = TurbineOutput (state r)"
    using assms(1-4) by (simp_all add: Scram_def Let_def)
  obtain h' r' where b: "ticks 0.2 ds (h, Scram r) = (h', r')"
    by (cases "ticks 0.2 ds (h, Scram r)")
  note inv = ticks_cooling [OF s(1-5), of ds h, unfolded b snd_conv]
  have c: "has_constants r'" "\<not> IsPoweredOn (state r')" "0 < Temperature (state r')"
    "0 \<le> TurbineOutput (state r')" "TurbineOutput (state r') \<le> 100"
    using inv s(4,5) by simp_all
  note step = Update_cooling_step [OF c, of u1 u2 h']
  have "0 < Temperature (state (snd (Update 0.2 u1 u2 (h', r'))))"
    using step(5) c(3) by simp
  moreover have "1 \<le> TurbineOutput (state r) \<longrightarrow>
      0 < PowerOutput (state (snd (Update 0.2 u1 u2 (h', r'))))"
    using step(6,7) inv s(6) by auto
  moreover have "TurbineOutput (state r) = 0 \<longrightarrow>
      PowerOutput (state (snd (Update 0.2 u1 u2 (h', r')))) = 0"
    using step(6) inv s(6) by simp
  ultimately show ?thesis
    using step(4) unfolding Let_def b by simp
qed

theorem scram_cooldown_witness:
  "has_constants (reactor0\<lparr>state := (state reactor0)\<lparr>Temperature := 950\<rparr>\<rparr>)
   \<and> Temperature (state (reactor0\<lparr>state := (state reactor0)\<lparr>Temperature := 950\<rparr>\<rparr>)) = 950
   \<and> 1 \<le> TurbineOutput (state (reactor0\<lparr>state := (state reactor0)\<lparr>Temperature := 950\<rparr>\<rparr>))
   \<and> TurbineOutput (state (reactor0\<lparr>state := (state reactor0)\<lparr>Temperature := 950\<rparr>\<rparr>))
        \<le> 100
   \<and> length [(0.5::real, 0.5::real)] < 10000
   \<and> 0 < Temperature (state (snd (Update 0.2 0.5 0.5 (ticks 0.2 [(0.5, 0.5)]
        (heap0, Scram (reactor0\<lparr>state := (state reactor0)\<lparr>Temperature := 950\<rparr>\<rparr>))))))
   \<and> 0 < PowerOutput (state (snd (Update 0.2 0.5 0.5 (ticks 0.2 [(0.5, 0.5)]
        (heap0, Scram (reactor0\<lparr>state := (state reactor0)\<lparr>Temperature := 950\<rparr>\<rparr>))))))
   \<and> TurbineOutput (state (reactor0\<lparr>state := (state reactor0)
        \<lparr>Temperature := 950, TurbineOutput := 0\<rparr>\<rparr>)) = 0
   \<and> PowerOutput (state (snd (Update 0.2 0.5 0.5 (ticks 0.2 [(0.5, 0.5)]
        (heap0, Scram (reactor0\<lparr>state := (state reactor0)
          \<lparr>Temperature := 950, TurbineOutput := 0\<rparr>\<rparr>)))))) = 0"
proof -
  let ?r = "reactor0\<lparr>state := (state reactor0)\<lparr>Temperature := 950\<rparr>\<rparr>"
  let ?z = "reactor0\<lparr>state := (state reactor0)\<lparr>Temperature := 950, TurbineOutput := 0\<rparr>\<rparr>"
  have a: "has_constants ?r" "Temperature (state ?r) = 950"
    "0 \<le> TurbineOutput (state ?r)" "TurbineOutput (state ?r) \<le> 100"
    "1 \<le> TurbineOutput (state ?r)"
    by (simp_all add: reactor0_eval has_constants_def)
  have z: "has_constants ?z" "Temperature (state ?z) = 950"
    "0 \<le> TurbineOutput (state ?z)" "TurbineOutput (state ?z) \<le> 100"
    "TurbineOutput (state ?z) = 0"
    by (simp_all add: reactor0_eval has_constants_def)
  have n: "length [(0.5::real, 0.5::real)] < 10000" by simp
  from scram_cooldown [OF a(1-4) n, of heap0 "0.5" "0.5"]
    scram_cooldown [OF z(1-4) n, of heap0 "0.5" "0.5"] a z n
  show ?thesis unfolding Let_def by blast
qed

text \<open>
  With the turbine closed the power output is 0 after the first tick, while the
  temperature is still 931.
\<close>

theorem scram_cooldown_counterexample:
  "PowerOutput (state (snd (Update 0.2 0.5 0.5 (heap0,
      Scram (reactor0\<lparr>state := (state reactor0)\<lparr>Temperature := 950, TurbineOutput := 0\<rparr>\<rparr>)))))
    = 0
   \<and> Temperature (state (snd (Update 0.2 0.5 0.5 (heap0,
      Scram (reactor0\<lparr>state := (state reactor0)\<lparr>Temperature := 950, TurbineOutput := 0\<rparr>\<rparr>)))))
    = 931"
  by (simp add: reactor0_eval command_defs tick_defs flag_defs)

subsection \<open>Power-on\<close>

text \<open>
  C8. \<^verbatim>\<open>PowerOn\<close> on a reactor that is already on changes nothing at all (the Scram
  bit included); on a reactor that is off it sets \<open>IsPoweredOn\<close>, clears the Scram bit
  of the status word, and changes nothing else: every other field and every other bit
  of the status word is as before.
\<close>

theorem PowerOn_spec:
  "(IsPoweredOn (state r) \<longrightarrow> PowerOn r = r) \<and>
   (\<not> IsPoweredOn (state r) \<longrightarrow>
      PowerOn r = r\<lparr>state := (state r)\<lparr>IsPoweredOn := True,
                                        Status := Status (state (PowerOn r))\<rparr>\<rparr>
      \<and> IsPoweredOn (state (PowerOn r))
      \<and> \<not> hasFlag (Status (state (PowerOn r))) StatusScram
      \<and> (\<forall>n. n \<noteq> 7 \<longrightarrow> bit (Status (state (PowerOn r))) n = bit (Status (state r)) n))"
  by (auto simp: PowerOn_def Let_def hasFlag_bit bit_and_iff bit_not_iff bit_Status
      dest: bit_imp_le_length)

theorem PowerOn_spec_witness:
  "IsPoweredOn (state reactor0) \<and> PowerOn reactor0 = reactor0
   \<and> \<not> IsPoweredOn (state (Scram reactor0))
   \<and> hasFlag (Status (state (Scram reactor0))) StatusScram
   \<and> IsPoweredOn (state (PowerOn (Scram reactor0)))
   \<and> \<not> hasFlag (Status (state (PowerOn (Scram reactor0)))) StatusScram"
  using PowerOn_spec [of reactor0] PowerOn_spec [of "Scram reactor0"]
  by (simp add: reactor0_eval Scram_def Let_def hasFlag_bit bit_simps bit_Status)

subsection \<open>Manual setpoints\<close>

text \<open>
  C5. While auto-control is on, \<^verbatim>\<open>SetFissionRate\<close> and \<^verbatim>\<open>SetTurbineOutput\<close>
  return the reactor unchanged, for every value. While it is off, they store the value
  clamped to \<open>[0, 100]\<close> in \<open>FissionRate\<close>, respectively \<open>TurbineOutput\<close>, and change
  nothing else.
\<close>

theorem setpoints_spec:
  "(IsAutoControl (state r) \<longrightarrow> SetFissionRate v r = r \<and> SetTurbineOutput v r = r) \<and>
   (\<not> IsAutoControl (state r) \<longrightarrow>
      SetFissionRate v r = r\<lparr>state := (state r)\<lparr>FissionRate := max 0 (min 100 v)\<rparr>\<rparr> \<and>
      SetTurbineOutput v r = r\<lparr>state := (state r)\<lparr>TurbineOutput := max 0 (min 100 v)\<rparr>\<rparr>)"
  by (auto simp: SetFissionRate_def SetTurbineOutput_def clamp_def)

theorem setpoints_spec_witness:
  "IsAutoControl (state reactor0)
   \<and> SetFissionRate 50 reactor0 = reactor0 \<and> SetTurbineOutput 50 reactor0 = reactor0
   \<and> \<not> IsAutoControl (state (ToggleAuto reactor0))
   \<and> FissionRate (state (SetFissionRate 150 (ToggleAuto reactor0))) = 100
   \<and> TurbineOutput (state (SetTurbineOutput (- 3) (ToggleAuto reactor0))) = 0
   \<and> FissionRate (state (SetFissionRate 42 (ToggleAuto reactor0))) = 42"
  using setpoints_spec [of reactor0 50] setpoints_spec [of "ToggleAuto reactor0" 150]
    setpoints_spec [of "ToggleAuto reactor0" "- 3"] setpoints_spec [of "ToggleAuto reactor0" 42]
  by (simp add: reactor0_eval ToggleAuto_def)

subsection \<open>The stored load does not reach the tick\<close>

lemma updateGridLoad_ignores_PowerLoad:
  "updateGridLoad delta u1 u2 (r\<lparr>state := (state r)\<lparr>PowerLoad := x\<rparr>\<rparr>)
   = updateGridLoad delta u1 u2 r"
  by (simp add: updateGridLoad_def Let_def split_def)

text \<open>
  C10. \<^verbatim>\<open>Update\<close> does not depend on the stored \<open>PowerLoad\<close>: two reactors that
  differ in that field only are sent to the same result by a tick with the same draws,
  because \<^verbatim>\<open>updateGridLoad\<close> overwrites the field before anything reads it. So a
  load installed by \<^verbatim>\<open>SetPowerLoad\<close> shows in a snapshot taken right after it, and
  is gone after the next tick.
\<close>

theorem Update_ignores_PowerLoad:
  "Update delta u1 u2 (h, r\<lparr>state := (state r)\<lparr>PowerLoad := x\<rparr>\<rparr>) = Update delta u1 u2 (h, r)
   \<and> Update delta u1 u2 (h, SetPowerLoad v r) = Update delta u1 u2 (h, r)
   \<and> PowerLoad (Snapshot (SetPowerLoad v r)) = max 0 v"
  by (simp only: Update.simps updateGridLoad_ignores_PowerLoad SetPowerLoad_def)
    (simp add: Snapshot_def max_go_def max_def)

end
